theory Spec2Isabelle
  imports Main
begin

section \<open>Python values, exceptions and strings\<close>

text \<open>
  The values that flow through the manager and the serializers: \<open>None\<close>, booleans,
  integers (primary keys), strings and nested dictionaries (the profile part of an update
  payload). A dictionary is a partial map from its keys.
\<close>

datatype pyval =
    PyNone
  | PyBool bool
  | PyInt int
  | PyStr string
  | PyDict "string \<Rightarrow> pyval option"

text \<open>Python's truth value testing, as used by \<open>if x\<close>, \<open>not x\<close> and \<open>x or y\<close>.\<close>

fun truthy :: "pyval \<Rightarrow> bool" where
  "truthy PyNone = False"
| "truthy (PyBool b) = b"
| "truthy (PyInt i) = (i \<noteq> 0)"
| "truthy (PyStr s) = (s \<noteq> [])"
| "truthy (PyDict d) = (d \<noteq> Map.empty)"

text \<open>
  An argument annotated \<open>Optional[str]\<close> is a \<open>string option\<close>; it is true when it is a
  non-empty string.
\<close>

definition truthy_str :: "string option \<Rightarrow> bool" where
  "truthy_str x = (case x of None \<Rightarrow> False | Some s \<Rightarrow> s \<noteq> [])"

text \<open>The string of an argument that has been tested to be true.\<close>

definition str_value :: "string option \<Rightarrow> string" where
  "str_value x = (case x of None \<Rightarrow> [] | Some s \<Rightarrow> s)"

text \<open>
  The exceptions that the code raises, by class. \<open>ParseError\<close> and \<open>ValidationError\<close> are
  the REST framework's HTTP 400 exceptions; the others are Python's own. The message of
  an exception is not modelled.
\<close>

datatype error =
    ParseError
  | ValidationError
  | ValueError
  | KeyError
  | TypeError
  | AttributeError
  | DoesNotExist

text \<open>
  Strings are lists of characters. \<open>s.split('@')[0]\<close> is the text before the first \<open>@\<close>
  and \<open>s.rsplit('@', 1)\<close> cuts \<open>s\<close> at its last \<open>@\<close>; both are modelled on lists.
  \<open>str.lower\<close> and \<open>str.strip\<close> follow the Unicode tables of the Python library; they
  are parameters of every function that uses them, so that each theorem below holds for
  the library's own methods.
\<close>

record str_methods =
  str_lower :: "string \<Rightarrow> string"
  str_strip :: "string \<Rightarrow> string"

definition split_at_first :: "string \<Rightarrow> string" where
  "split_at_first s = takeWhile (\<lambda>c. c \<noteq> CHR ''@'') s"

definition rsplit_at :: "string \<Rightarrow> string \<times> string" where
  "rsplit_at s =
     (let domain_rev = takeWhile (\<lambda>c. c \<noteq> CHR ''@'') (rev s)
      in (take (length s - length domain_rev - 1) s, rev domain_rev))"

section \<open>Model instances and the database\<close>

text \<open>
  A model instance is the dictionary of its attributes. The keyword arguments
  \<open>**extra_fields\<close> of the manager and the \<open>validated_data\<close> of a serializer are
  dictionaries too.
\<close>

type_synonym obj = "string \<Rightarrow> pyval option"

text \<open>
  The database holds the user rows and the profile rows, both keyed by the user's primary
  key (a profile belongs to one user), and the next key of the users' sequence.
\<close>

record db =
  users :: "int \<Rightarrow> obj option"
  profiles :: "int \<Rightarrow> obj option"
  next_id :: int

text \<open>
  \<open>Model.save\<close>: an instance without a primary key is inserted under a fresh one, which
  is written back to the instance; an instance with a primary key replaces its row. The
  constraints of the absent model's table (a unique username, for one) are not modelled,
  so \<open>save\<close> never raises here; the theorems on creating a user are therefore stated for
  the calls that return a user and assert of no call that it succeeds.
\<close>

definition save :: "obj \<Rightarrow> db \<Rightarrow> obj \<times> db" where
  "save instance d =
     (case instance ''id'' of
        Some (PyInt pk) \<Rightarrow> (instance, d\<lparr>users := (users d)(pk \<mapsto> instance)\<rparr>)
      | _ \<Rightarrow>
          (let pk = next_id d; instance' = instance(''id'' \<mapsto> PyInt pk)
           in (instance', d\<lparr>users := (users d)(pk \<mapsto> instance'), next_id := pk + 1\<rparr>)))"

text \<open>
  The user model (\<open>users/models/users.py\<close>) is not among the sources, so what the code
  reads of it is a parameter of every function that uses it: the defaults of its fields
  and its role enumeration \<open>Role\<close>, with the members \<open>ADMIN\<close> and \<open>MANAGER\<close> and the
  list \<open>Role.choices\<close> of (value, label) pairs. Role values are strings, as the
  serializer's annotation \<open>dict[str, str]\<close> says.
\<close>

record user_model =
  field_defaults :: obj
  Role_ADMIN :: string
  Role_MANAGER :: string
  Role_choices :: "(string \<times> string) list"

text \<open>
  \<open>self.model(**kwargs)\<close>: every field takes its keyword argument, or else its default.
  The \<open>TypeError\<close> of the framework for a keyword that names no field of the absent model
  is not modelled.
\<close>

definition model :: "user_model \<Rightarrow> obj \<Rightarrow> obj" where
  "model m kwargs = field_defaults m ++ kwargs"

text \<open>
  The framework's password hashing, a parameter: \<open>make_password\<close> encodes a raw password
  (\<open>None\<close> gives an unusable one) and \<open>check_password raw encoded\<close> compares.
  \<open>validate_password\<close> is the framework's password policy.
\<close>

record hasher =
  make_password :: "string option \<Rightarrow> string"
  check_password :: "string \<Rightarrow> string \<Rightarrow> bool"
  validate_password :: "string \<Rightarrow> bool"

definition set_password :: "hasher \<Rightarrow> obj \<Rightarrow> string option \<Rightarrow> obj" where
  "set_password h instance raw_password =
     instance(''password'' \<mapsto> PyStr (make_password h raw_password))"


section \<open>The user manager (\<open>users/managers/users.py\<close>)\<close>

text \<open>
  \<open>BaseUserManager.normalize_email\<close>, which \<open>CustomUserManager\<close> inherits from the
  framework: the address is stripped and cut at its last \<open>@\<close>, and the domain part is
  lowercased; an address without \<open>@\<close> is returned as it is.
\<close>

definition normalize_email :: "str_methods \<Rightarrow> string \<Rightarrow> string" where
  "normalize_email s email =
     (if CHR ''@'' \<in> set (str_strip s email)
      then (let (email_name, domain_part) = rsplit_at (str_strip s email)
            in email_name @ ''@'' @ str_lower s domain_part)
      else email)"

text \<open>\<open>dict.setdefault\<close> and \<open>dict.get\<close>.\<close>

definition setdefault :: "obj \<Rightarrow> string \<Rightarrow> pyval \<Rightarrow> obj" where
  "setdefault d k v = (case d k of None \<Rightarrow> d(k \<mapsto> v) | Some _ \<Rightarrow> d)"

definition dict_get :: "obj \<Rightarrow> string \<Rightarrow> pyval" where
  "dict_get d k = (case d k of None \<Rightarrow> PyNone | Some v \<Rightarrow> v)"

text \<open>\<open>__check_email_or_phone_number\<close>: \<open>email or phone_number\<close>.\<close>

definition CustomUserManager__check_email_or_phone_number ::
  "string option \<Rightarrow> string option \<Rightarrow> string option" where
  "CustomUserManager__check_email_or_phone_number email phone_number =
     (if truthy_str email then email else phone_number)"

text \<open>
  \<open>__create_user\<close>. The named parameters never occur among \<open>extra_fields\<close>: Python
  rejects a call that passes one of them twice.
\<close>

definition CustomUserManager__create_user ::
  "user_model \<Rightarrow> hasher \<Rightarrow> str_methods \<Rightarrow> string option \<Rightarrow> string option \<Rightarrow> string option \<Rightarrow>
   string option \<Rightarrow> obj \<Rightarrow> db \<Rightarrow> (error + obj) \<times> db" where
  "CustomUserManager__create_user m h s phone_number email password username extra_fields d =
     (if \<not> (truthy_str email \<or> truthy_str phone_number \<or> truthy_str username)
      then (Inl ParseError, d)
      else
        let email = (if truthy_str email then map_option (normalize_email s) email else email);
            derived =
              (if \<not> truthy_str username
               then (case CustomUserManager__check_email_or_phone_number email phone_number of
                       None \<Rightarrow> Inl TypeError
                     | Some value \<Rightarrow>
                         Inr (if CHR ''@'' \<in> set value then split_at_first value else value))
               else Inr (str_value username))
        in case derived of
             Inl e \<Rightarrow> (Inl e, d)
           | Inr username \<Rightarrow>
               let user = model m (extra_fields(''username'' \<mapsto> PyStr username));
                   user = (if truthy_str email
                           then user(''email'' \<mapsto> PyStr (str_value email)) else user);
                   user = (if truthy_str phone_number
                           then user(''phone_number'' \<mapsto> PyStr (str_value phone_number))
                           else user)
               in case user ''is_superuser'' of
                    None \<Rightarrow> (Inl AttributeError, d)
                  | Some is_superuser \<Rightarrow>
                      let user = (if truthy is_superuser
                                  then user(''role'' \<mapsto> PyStr (Role_ADMIN m)) else user);
                          user = set_password h user password;
                          (user, d) = save user d
                      in (Inr user, d))"

definition create_user ::
  "user_model \<Rightarrow> hasher \<Rightarrow> str_methods \<Rightarrow> string option \<Rightarrow> string option \<Rightarrow> string option \<Rightarrow>
   string option \<Rightarrow> obj \<Rightarrow> db \<Rightarrow> (error + obj) \<times> db" where
  "create_user m h s phone_number email password username extra_fields d =
     (let extra_fields = setdefault extra_fields ''is_superuser'' (PyBool False);
          extra_fields = setdefault extra_fields ''is_active'' (PyBool True)
      in CustomUserManager__create_user m h s phone_number email password username
           extra_fields d)"

definition create_superuser ::
  "user_model \<Rightarrow> hasher \<Rightarrow> str_methods \<Rightarrow> string option \<Rightarrow> string option \<Rightarrow> string option \<Rightarrow>
   string option \<Rightarrow> obj \<Rightarrow> db \<Rightarrow> (error + obj) \<times> db" where
  "create_superuser m h s email phone_number password username extra_fields d =
     (let extra_fields = setdefault extra_fields ''is_superuser'' (PyBool True);
          extra_fields = setdefault extra_fields ''is_active'' (PyBool True)
      in if \<not> truthy (dict_get extra_fields ''is_superuser'')
         then (Inl ValueError, d)
         else CustomUserManager__create_user m h s phone_number email password username
                extra_fields d)"

section \<open>The serializers (\<open>users/serializers/api/users.py\<close>)\<close>

text \<open>
  \<open>RegistrationSerializer.validate_email\<close>. The query
  \<open>User.objects.filter(email=email).exists()\<close> asks whether some user row holds exactly
  this email.
\<close>

definition RegistrationSerializer_validate_email ::
  "str_methods \<Rightarrow> db \<Rightarrow> string \<Rightarrow> error + string" where
  "RegistrationSerializer_validate_email s d value =
     (let email = str_lower s value
      in if \<exists>user \<in> ran (users d). user ''email'' = Some (PyStr email)
         then Inl ParseError
         else Inr email)"





text \<open>
  \<open>UserUpdateRoleSerializer.update\<close>. The source builds a \<open>ParseError\<close> when the role is
  not among the choices, in an expression statement without \<open>raise\<close>: the exception object
  is dropped and the method goes on. \<open>dropped\<close> is that object.
\<close>

definition UserUpdateRoleSerializer_update ::
  "user_model \<Rightarrow> obj \<Rightarrow> (string \<Rightarrow> string option) \<Rightarrow> db \<Rightarrow> (error + obj) \<times> db" where
  "UserUpdateRoleSerializer_update m instance validated_data d =
     (case validated_data ''role'' of
        None \<Rightarrow> (Inl KeyError, d)
      | Some current_role \<Rightarrow>
          let dropped = (if \<not> list_ex (\<lambda>(role, _). current_role = role) (Role_choices m)
                         then Some ParseError else None);
              instance = (if current_role = Role_ADMIN m \<or> current_role = Role_MANAGER m
                          then instance(''is_staff'' \<mapsto> PyBool True) else instance);
              instance = instance(''role'' \<mapsto> PyStr current_role);
              (instance, d) = save instance d
          in (Inr instance, d))"



text \<open>
  \<open>transaction.atomic()\<close>: the block's writes are committed when it ends normally and
  rolled back when an exception leaves it.
\<close>

definition atomic :: "(db \<Rightarrow> (error + 'a) \<times> db) \<Rightarrow> db \<Rightarrow> (error + 'a) \<times> db" where
  "atomic body d =
     (case body d of
        (Inl e, _) \<Rightarrow> (Inl e, d)
      | (Inr v, d') \<Rightarrow> (Inr v, d'))"

text \<open>
  \<open>ModelSerializer.update\<close>, the \<open>super().update\<close> of the user update: every entry of
  \<open>validated_data\<close> is set on the instance, which is saved.
\<close>

definition ModelSerializer_update :: "obj \<Rightarrow> obj \<Rightarrow> db \<Rightarrow> obj \<times> db" where
  "ModelSerializer_update instance validated_data d = save (instance ++ validated_data) d"

text \<open>\<open>instance.profile\<close>: the profile row of the user, if there is one.\<close>

definition related_profile :: "obj \<Rightarrow> db \<Rightarrow> obj option" where
  "related_profile instance d =
     (case instance ''id'' of Some (PyInt pk) \<Rightarrow> profiles d pk | _ \<Rightarrow> None)"

text \<open>
  \<open>ProfileUpdateSerializer\<close> (\<open>users/serializers/nested/profile.py\<close>) is not among the
  sources. Its validation and its \<open>save\<close>, which may write to the database and may fail,
  are parameters.
\<close>

record profile_serializer =
  profile_is_valid :: "obj \<Rightarrow> pyval \<Rightarrow> bool"
  profile_save :: "obj \<Rightarrow> pyval \<Rightarrow> db \<Rightarrow> (error + unit) \<times> db"

definition UserUpdateSerializer_update_profile ::
  "profile_serializer \<Rightarrow> obj \<Rightarrow> pyval \<Rightarrow> db \<Rightarrow> (error + unit) \<times> db" where
  "UserUpdateSerializer_update_profile ps profile data d =
     (if \<not> profile_is_valid ps profile data
      then (Inl ValidationError, d)
      else profile_save ps profile data d)"

definition UserUpdateSerializer_update ::
  "profile_serializer \<Rightarrow> obj \<Rightarrow> obj \<Rightarrow> db \<Rightarrow> (error + obj) \<times> db" where
  "UserUpdateSerializer_update ps instance validated_data d =
     (let profile_data = dict_get validated_data ''profile'';
          validated_data = validated_data(''profile'' := None)
      in atomic
           (\<lambda>d. let (instance, d) = ModelSerializer_update instance validated_data d
                in if truthy profile_data
                   then (case related_profile instance d of
                           None \<Rightarrow> (Inl DoesNotExist, d)
                         | Some profile \<Rightarrow>
                             (case UserUpdateSerializer_update_profile ps profile
                                     profile_data d of
                                (Inl e, d) \<Rightarrow> (Inl e, d)
                              | (Inr _, d) \<Rightarrow> (Inr instance, d)))
                   else (Inr instance, d))
           d)"

section \<open>Example parameters\<close>

text \<open>
  A role enumeration with three roles, a transparent password encoding and an empty
  database, on which the theorems below are instantiated.
\<close>

definition example_model :: user_model where
  "example_model =
     \<lparr>field_defaults =
        [''is_staff'' \<mapsto> PyBool False, ''is_superuser'' \<mapsto> PyBool False,
         ''role'' \<mapsto> PyStr ''user''],
      Role_ADMIN = ''admin'',
      Role_MANAGER = ''manager'',
      Role_choices = [(''admin'', ''Admin''), (''manager'', ''Manager''), (''user'', ''User'')]\<rparr>"

definition example_hasher :: hasher where
  "example_hasher =
     \<lparr>make_password = (\<lambda>raw. case raw of None \<Rightarrow> ''!'' | Some p \<Rightarrow> ''plain$'' @ p),
      check_password = (\<lambda>raw encoded. encoded = ''plain$'' @ raw),
      validate_password = (\<lambda>p. 8 \<le> length p)\<rparr>"

text \<open>
  \<open>str.lower\<close> and \<open>str.strip\<close> on ASCII strings: \<open>A\<close>..\<open>Z\<close> become \<open>a\<close>..\<open>z\<close>, and the
  ASCII whitespace (codes 9 to 13 and 28 to 32) is removed at both ends. The examples use
  ASCII strings only.
\<close>

definition ascii_lower_char :: "char \<Rightarrow> char" where
  "ascii_lower_char c =
     (let n = (of_char c :: nat) in if 65 \<le> n \<and> n \<le> 90 then char_of (n + 32) else c)"

definition ascii_lower :: "string \<Rightarrow> string" where
  "ascii_lower s = map ascii_lower_char s"

definition ascii_isspace :: "char \<Rightarrow> bool" where
  "ascii_isspace c =
     (let n = (of_char c :: nat) in (9 \<le> n \<and> n \<le> 13) \<or> (28 \<le> n \<and> n \<le> 32))"

definition ascii_strip :: "string \<Rightarrow> string" where
  "ascii_strip s = rev (dropWhile ascii_isspace (rev (dropWhile ascii_isspace s)))"

definition ascii_str :: str_methods where
  "ascii_str = \<lparr>str_lower = ascii_lower, str_strip = ascii_strip\<rparr>"

definition empty_db :: db where
  "empty_db = \<lparr>users = Map.empty, profiles = Map.empty, next_id = 1\<rparr>"

text \<open>
  Two profile serializers, one whose \<open>save\<close> writes to the profile table and then raises
  and one whose \<open>save\<close> updates the profile row, and a database with one user and its
  profile.
\<close>

definition failing_profile_serializer :: profile_serializer where
  "failing_profile_serializer =
     \<lparr>profile_is_valid = (\<lambda>profile data. True),
      profile_save = (\<lambda>profile data d. (Inl ValidationError, d\<lparr>profiles := Map.empty\<rparr>))\<rparr>"

definition working_profile_serializer :: profile_serializer where
  "working_profile_serializer =
     \<lparr>profile_is_valid = (\<lambda>profile data. True),
      profile_save = (\<lambda>profile data d.
         case (profile ''user_id'', data) of
           (Some (PyInt pk), PyDict entries) \<Rightarrow>
             (Inr (), d\<lparr>profiles := (profiles d)(pk \<mapsto> profile ++ entries)\<rparr>)
         | _ \<Rightarrow> (Inl ValidationError, d))\<rparr>"

definition example_db :: db where
  "example_db =
     \<lparr>users = [1 \<mapsto> [''id'' \<mapsto> PyInt 1, ''first_name'' \<mapsto> PyStr ''Ann'']],
      profiles = [1 \<mapsto> [''user_id'' \<mapsto> PyInt 1, ''bio'' \<mapsto> PyStr []]],
      next_id = 2\<rparr>"

section \<open>Closed forms used by the theorems\<close>

text \<open>
  The username that the specification describes for a call without a username: the
  identifier is the normalized email when an email is given and the phone number
  otherwise; the username is the part of the identifier before its first \<open>@\<close> when it
  contains one, and the identifier itself when it does not.
\<close>

definition spec_derived_username ::
  "str_methods \<Rightarrow> string option \<Rightarrow> string option \<Rightarrow> string" where
  "spec_derived_username s email phone_number =
     (let identifier = (if truthy_str email then normalize_email s (str_value email)
                        else str_value phone_number)
      in if CHR ''@'' \<in> set identifier
         then takeWhile (\<lambda>c. c \<noteq> CHR ''@'') identifier else identifier)"

text \<open>
  The instance that \<open>__create_user\<close> hands to \<open>save\<close>, written as one expression.
\<close>

definition created_user ::
  "user_model \<Rightarrow> hasher \<Rightarrow> str_methods \<Rightarrow> string option \<Rightarrow> string option \<Rightarrow> string option \<Rightarrow>
   string option \<Rightarrow> obj \<Rightarrow> obj" where
  "created_user m h s phone_number email password username ef =
    (let name = (if truthy_str username then str_value username
                 else spec_derived_username s email phone_number);
         u0 = model m (ef(''username'' \<mapsto> PyStr name));
         u1 = (if truthy_str email
               then u0(''email'' \<mapsto> PyStr (normalize_email s (str_value email))) else u0);
         u2 = (if truthy_str phone_number
               then u1(''phone_number'' \<mapsto> PyStr (str_value phone_number)) else u1);
         u3 = (if truthy (dict_get (model m ef) ''is_superuser'')
               then u2(''role'' \<mapsto> PyStr (Role_ADMIN m)) else u2)
     in set_password h u3 password)"

text \<open>An attribute of the instance that a call returned, \<open>None\<close> if the call raised.\<close>

definition result_attr :: "(error + obj) \<times> db \<Rightarrow> string \<Rightarrow> pyval option" where
  "result_attr r k = (case fst r of Inl e \<Rightarrow> None | Inr instance \<Rightarrow> instance k)"

section \<open>Auxiliary lemmas\<close>

lemma truthy_str_Some [simp]: "truthy_str (Some s) = (s \<noteq> [])"
  by (simp add: truthy_str_def)

lemma truthy_str_None [simp]: "\<not> truthy_str None"
  by (simp add: truthy_str_def)

lemma truthy_strE: "truthy_str x \<Longrightarrow> \<exists>s. x = Some s \<and> s \<noteq> []"
  by (cases x) simp_all

lemma str_value_Some [simp]: "str_value (Some s) = s"
  by (simp add: str_value_def)

lemma normalize_email_nonempty [simp]: "e \<noteq> [] \<Longrightarrow> normalize_email s e \<noteq> []"
  by (auto simp: normalize_email_def split: prod.splits)

lemma save_other: "k \<noteq> ''id'' \<Longrightarrow> fst (save u d) k = u k"
  by (simp add: save_def Let_def split: option.splits pyval.splits)

lemma create_private_missing:
  "\<not> (truthy_str email \<or> truthy_str phone_number \<or> truthy_str username) \<Longrightarrow>
   CustomUserManager__create_user m h s phone_number email password username ef d = (Inl ParseError, d)"
  by (simp add: CustomUserManager__create_user_def)

lemma model_upd: "model m (ef(k \<mapsto> v)) = (model m ef)(k \<mapsto> v)"
  by (simp add: model_def)

lemma create_private_attr:
  assumes "truthy_str email \<or> truthy_str phone_number \<or> truthy_str username"
      and "model m ef ''is_superuser'' = None"
  shows "CustomUserManager__create_user m h s phone_number email password username ef d =
     (Inl AttributeError, d)"
  using assms
  by (cases email; cases phone_number; cases username)
     (simp_all add: CustomUserManager__create_user_def Let_def model_upd
         CustomUserManager__check_email_or_phone_number_def)

lemma create_private_given:
  assumes "truthy_str email \<or> truthy_str phone_number \<or> truthy_str username"
      and "model m ef ''is_superuser'' = Some v"
  shows "CustomUserManager__create_user m h s phone_number email password username ef d =
     (Inr (fst (save (created_user m h s phone_number email password username ef) d)),
      snd (save (created_user m h s phone_number email password username ef) d))"
  using assms
  by (cases email; cases phone_number; cases username)
     (simp_all add: CustomUserManager__create_user_def created_user_def Let_def model_upd spec_derived_username_def
         CustomUserManager__check_email_or_phone_number_def split_at_first_def
         dict_get_def split_beta)


lemma model_lookup:
  "model m ef k = (case ef k of None \<Rightarrow> field_defaults m k | Some v \<Rightarrow> Some v)"
  by (simp add: model_def map_add_def)

lemma setdefault_lookup:
  "setdefault ef k v k' =
     (if k' = k then (case ef k of None \<Rightarrow> Some v | Some x \<Rightarrow> Some x) else ef k')"
  by (simp add: setdefault_def split: option.splits)

lemma dict_get_setdefault_other [simp]:
  "k' \<noteq> k \<Longrightarrow> dict_get (setdefault ef k v) k' = dict_get ef k'"
  by (simp add: dict_get_def setdefault_lookup)

lemma created_user_username:
  "created_user m h s phone_number email password username ef ''username'' =
     Some (PyStr (if truthy_str username then str_value username
                  else spec_derived_username s email phone_number))"
  by (simp add: created_user_def Let_def set_password_def model_upd)

lemma created_user_email:
  "truthy_str email \<Longrightarrow>
   created_user m h s phone_number email password username ef ''email'' =
     Some (PyStr (normalize_email s (str_value email)))"
  by (simp add: created_user_def Let_def set_password_def model_upd)

lemma created_user_role:
  "truthy (dict_get (model m ef) ''is_superuser'') \<Longrightarrow>
   created_user m h s phone_number email password username ef ''role'' = Some (PyStr (Role_ADMIN m))"
  by (simp add: created_user_def Let_def set_password_def model_upd)

lemma created_user_is_superuser:
  "created_user m h s phone_number email password username ef ''is_superuser'' =
   model m ef ''is_superuser''"
  by (simp add: created_user_def Let_def set_password_def model_upd)

lemma created_user_password:
  "created_user m h s phone_number email password username ef ''password'' =
   Some (PyStr (make_password h password))"
  by (simp add: created_user_def Let_def set_password_def model_upd)

lemma create_user_given:
  assumes "truthy_str email \<or> truthy_str phone_number \<or> truthy_str username"
  shows "create_user m h s phone_number email password username ef d =
     (let ef' = setdefault (setdefault ef ''is_superuser'' (PyBool False)) ''is_active'' (PyBool True);
          u = created_user m h s phone_number email password username ef'
      in (Inr (fst (save u d)), snd (save u d)))"
proof -
  let ?ef = "setdefault (setdefault ef ''is_superuser'' (PyBool False)) ''is_active'' (PyBool True)"
  obtain v where "model m ?ef ''is_superuser'' = Some v"
    by (cases "ef ''is_superuser''") (simp_all add: model_lookup setdefault_lookup)
  from create_private_given [OF assms this] show ?thesis
    by (simp add: create_user_def Let_def)
qed

lemma create_superuser_given:
  assumes "truthy_str email \<or> truthy_str phone_number \<or> truthy_str username"
      and "truthy (dict_get (setdefault ef ''is_superuser'' (PyBool True)) ''is_superuser'')"
  shows "create_superuser m h s email phone_number password username ef d =
     (let ef' = setdefault (setdefault ef ''is_superuser'' (PyBool True)) ''is_active'' (PyBool True);
          u = created_user m h s phone_number email password username ef'
      in (Inr (fst (save u d)), snd (save u d)))"
proof -
  let ?ef = "setdefault (setdefault ef ''is_superuser'' (PyBool True)) ''is_active'' (PyBool True)"
  obtain v where "model m ?ef ''is_superuser'' = Some v"
    by (cases "ef ''is_superuser''") (simp_all add: model_lookup setdefault_lookup)
  from create_private_given [OF assms(1) this] assms(2) show ?thesis
    by (simp add: create_superuser_def Let_def)
qed

lemma create_superuser_falsy:
  assumes "\<not> truthy (dict_get (setdefault ef ''is_superuser'' (PyBool True)) ''is_superuser'')"
  shows "create_superuser m h s email phone_number password username ef d = (Inl ValueError, d)"
  using assms by (simp add: create_superuser_def Let_def)

lemma create_private_Inr:
  assumes "CustomUserManager__create_user m h s phone_number email password username ef d = (Inr user, d')"
  shows "(truthy_str email \<or> truthy_str phone_number \<or> truthy_str username) \<and>
         user = fst (save (created_user m h s phone_number email password username ef) d) \<and>
         d' = snd (save (created_user m h s phone_number email password username ef) d)"
proof -
  have g: "truthy_str email \<or> truthy_str phone_number \<or> truthy_str username"
    using assms create_private_missing [of email phone_number username m h s password ef d]
    by auto
  show ?thesis
  proof (cases "model m ef ''is_superuser''")
    case None
    from create_private_attr [OF g None] assms show ?thesis by simp
  next
    case (Some v)
    from create_private_given [OF g Some] assms g show ?thesis by simp
  qed
qed

lemma save_row: "\<exists>pk. users (snd (save u d)) pk = Some (fst (save u d))"
  by (auto simp add: save_def Let_def split: option.splits pyval.splits)

lemma create_user_Inr:
  assumes "create_user m h s phone_number email password username ef d = (Inr user, d')"
  shows "(truthy_str email \<or> truthy_str phone_number \<or> truthy_str username) \<and>
         user = fst (save (created_user m h s phone_number email password username
                  (setdefault (setdefault ef ''is_superuser'' (PyBool False)) ''is_active'' (PyBool True))) d) \<and>
         d' = snd (save (created_user m h s phone_number email password username
                  (setdefault (setdefault ef ''is_superuser'' (PyBool False)) ''is_active'' (PyBool True))) d)"
  using assms create_private_Inr [of m h s phone_number email password username
      "setdefault (setdefault ef ''is_superuser'' (PyBool False)) ''is_active'' (PyBool True)" d user d']
  by (simp add: create_user_def Let_def)

lemma create_superuser_Inr:
  assumes "create_superuser m h s email phone_number password username ef d = (Inr user, d')"
  shows "(truthy_str email \<or> truthy_str phone_number \<or> truthy_str username) \<and>
         truthy (dict_get (setdefault ef ''is_superuser'' (PyBool True)) ''is_superuser'') \<and>
         user = fst (save (created_user m h s phone_number email password username
                  (setdefault (setdefault ef ''is_superuser'' (PyBool True)) ''is_active'' (PyBool True))) d) \<and>
         d' = snd (save (created_user m h s phone_number email password username
                  (setdefault (setdefault ef ''is_superuser'' (PyBool True)) ''is_active'' (PyBool True))) d)"
proof (cases "truthy (dict_get (setdefault ef ''is_superuser'' (PyBool True)) ''is_superuser'')")
  case False
  from create_superuser_falsy [OF False] assms show ?thesis by simp
next
  case True
  with assms have "CustomUserManager__create_user m h s phone_number email password username
      (setdefault (setdefault ef ''is_superuser'' (PyBool True)) ''is_active'' (PyBool True)) d = (Inr user, d')"
    by (simp add: create_superuser_def Let_def)
  from create_private_Inr [OF this] True show ?thesis by simp
qed

lemma model_setdefault_superuser:
  "dict_get (model m (setdefault (setdefault ef ''is_superuser'' v) ''is_active'' w)) ''is_superuser''
   = dict_get (setdefault ef ''is_superuser'' v) ''is_superuser''"
  by (simp add: dict_get_def model_lookup setdefault_lookup split: option.splits)

lemma rsplit_at_last:
  assumes "CHR ''@'' \<notin> set domain_part"
  shows "rsplit_at (email_name @ ''@'' @ domain_part) = (email_name, domain_part)"
proof -
  have "takeWhile (\<lambda>c. c \<noteq> CHR ''@'') (rev domain_part @ CHR ''@'' # rev email_name)
          = rev domain_part"
    using assms by (auto simp add: takeWhile_tail takeWhile_eq_all_conv)
  then show ?thesis
    by (simp add: rsplit_at_def)
qed

lemma normalize_email_no_at:
  "CHR ''@'' \<notin> set (str_strip s e) \<Longrightarrow> normalize_email s e = e"
  by (simp add: normalize_email_def)

lemma normalize_email_at:
  assumes "str_strip s e = email_name @ ''@'' @ domain_part"
      and "CHR ''@'' \<notin> set domain_part"
  shows "normalize_email s e = email_name @ ''@'' @ str_lower s domain_part"
  using rsplit_at_last [OF assms(2), of email_name] assms(1)
  by (simp add: normalize_email_def)

text \<open>Evaluation of the definitions on the example parameters.\<close>

lemmas eval_defs = result_attr_def create_user_def create_superuser_def
     CustomUserManager__create_user_def Let_def dict_get_def
     truthy_str_def setdefault_def model_def CustomUserManager__check_email_or_phone_number_def
     example_model_def example_hasher_def empty_db_def save_def set_password_def str_value_def
     split_at_first_def

lemma example_username_email:
  "spec_derived_username ascii_str (Some ''Ann@Example.COM'') (Some ''5550100'') = ''Ann''"
  by code_simp

lemma example_username_phone:
  "spec_derived_username ascii_str None (Some ''5550100'') = ''5550100''"
  by code_simp

lemma example_strip:
  "str_strip ascii_str '' Ann@Example.COM'' = ''Ann'' @ ''@'' @ ''Example.COM''"
  by code_simp

lemma example_lower: "str_lower ascii_str ''Example.COM'' = ''example.com''"
  by code_simp

lemma example_lower_equal: "str_lower ascii_str ''A@b.c'' = str_lower ascii_str ''a@b.c''"
  by code_simp

lemma example_normalize_upper: "normalize_email ascii_str ''A@b.c'' = ''A@b.c''"
  by code_simp

lemma example_normalize_lower: "normalize_email ascii_str ''a@b.c'' = ''a@b.c''"
  by code_simp

lemma example_lower_registration:
  "str_lower ascii_str ''Ann@Example.COM'' = ''ann@example.com''"
  by code_simp

lemma atomic_Inl: "body d = (Inl e, d1) \<Longrightarrow> atomic body d = (Inl e, d)"
  by (simp add: atomic_def)

lemma atomic_Inr: "body d = (Inr v, d1) \<Longrightarrow> atomic body d = (Inr v, d1)"
  by (simp add: atomic_def)

lemma atomic_result:
  "atomic body d = (r, d') \<Longrightarrow>
   (\<exists>e d1. body d = (Inl e, d1) \<and> r = Inl e \<and> d' = d) \<or>
   (\<exists>v. body d = (Inr v, d') \<and> r = Inr v)"
  by (cases "body d") (auto simp add: atomic_def split: sum.splits)

lemmas update_defs = UserUpdateSerializer_update_def UserUpdateSerializer_update_profile_def
  ModelSerializer_update_def related_profile_def atomic_def save_def dict_get_def Let_def
  example_db_def failing_profile_serializer_def working_profile_serializer_def map_add_def

section \<open>Creating a user\<close>

text \<open>
  C4. When email, phone number and username are all absent or empty, creating a user
  raises \<open>ParseError\<close> and the database is left as it was: this holds for \<open>__create_user\<close>,
  for \<open>create_user\<close>, and for \<open>create_superuser\<close> whenever its \<open>is_superuser\<close> flag is true
  (a false flag raises \<open>ValueError\<close> before). When one of the three is given, no creation
  call raises \<open>ParseError\<close>.
\<close>


theorem missing_identifier_raises_ParseError:
  "(\<not> (truthy_str email \<or> truthy_str phone_number \<or> truthy_str username) \<longrightarrow>
      CustomUserManager__create_user m h s phone_number email password username extra_fields d
        = (Inl ParseError, d) \<and>
      create_user m h s phone_number email password username extra_fields d
        = (Inl ParseError, d) \<and>
      (truthy (dict_get (setdefault extra_fields ''is_superuser'' (PyBool True))
                 ''is_superuser'') \<longrightarrow>
       create_superuser m h s email phone_number password username extra_fields d
         = (Inl ParseError, d))) \<and>
   (truthy_str email \<or> truthy_str phone_number \<or> truthy_str username \<longrightarrow>
      fst (CustomUserManager__create_user m h s phone_number email password username
             extra_fields d) \<noteq> Inl ParseError \<and>
      fst (create_user m h s phone_number email password username extra_fields d)
        \<noteq> Inl ParseError \<and>
      fst (create_superuser m h s email phone_number password username extra_fields d)
        \<noteq> Inl ParseError)"
proof (intro conjI impI)
  assume a: "\<not> (truthy_str email \<or> truthy_str phone_number \<or> truthy_str username)"
  show "CustomUserManager__create_user m h s phone_number email password username extra_fields d
        = (Inl ParseError, d)"
    by (rule create_private_missing [OF a])
  show "create_user m h s phone_number email password username extra_fields d
        = (Inl ParseError, d)"
    by (simp add: create_user_def Let_def create_private_missing [OF a])
  assume "truthy (dict_get (setdefault extra_fields ''is_superuser'' (PyBool True))
                 ''is_superuser'')"
  then show "create_superuser m h s email phone_number password username extra_fields d
         = (Inl ParseError, d)"
    by (simp add: create_superuser_def Let_def create_private_missing [OF a])
next
  assume g: "truthy_str email \<or> truthy_str phone_number \<or> truthy_str username"
  show "fst (CustomUserManager__create_user m h s phone_number email password username
             extra_fields d) \<noteq> Inl ParseError"
    by (cases "model m extra_fields ''is_superuser''")
       (simp_all add: create_private_attr [OF g] create_private_given [OF g])
  show "fst (create_user m h s phone_number email password username extra_fields d)
        \<noteq> Inl ParseError"
    by (simp add: create_user_given [OF g] Let_def)
  show "fst (create_superuser m h s email phone_number password username extra_fields d)
        \<noteq> Inl ParseError"
    by (cases "truthy (dict_get (setdefault extra_fields ''is_superuser'' (PyBool True))
                 ''is_superuser'')")
       (simp_all add: create_superuser_given [OF g] create_superuser_falsy Let_def)
qed


theorem missing_identifier_raises_ParseError_witness:
  "create_user example_model example_hasher ascii_str None None (Some ''pw'') None Map.empty empty_db
     = (Inl ParseError, empty_db) \<and>
   create_superuser example_model example_hasher ascii_str (Some []) None (Some ''pw'') None Map.empty
     empty_db = (Inl ParseError, empty_db) \<and>
   fst (create_user example_model example_hasher ascii_str None (Some ''a@b.c'') (Some ''pw'') None
          Map.empty empty_db) \<noteq> Inl ParseError"
  using missing_identifier_raises_ParseError
          [of None None None example_model example_hasher ascii_str "Some ''pw''" Map.empty empty_db]
        missing_identifier_raises_ParseError
          [of "Some []" None None example_model example_hasher ascii_str "Some ''pw''" Map.empty empty_db]
        missing_identifier_raises_ParseError
          [of "Some ''a@b.c''" None None example_model example_hasher ascii_str "Some ''pw''" Map.empty
              empty_db]
  by (simp add: setdefault_def dict_get_def)

text \<open>
  C1. In a creation call without a username, with an email or a phone number, the
  username of the created user is derived from the identifier: the identifier is the
  normalized email when an email is given (so the email is preferred) and the phone
  number otherwise; the username is the part of the identifier before its first \<open>@\<close> when
  it contains one and the identifier itself when it does not. This holds for every user
  that \<open>create_user\<close>, \<open>create_superuser\<close> or \<open>__create_user\<close> returns.
\<close>

theorem username_derived_from_identifier:
  assumes "\<not> truthy_str username" and "truthy_str email \<or> truthy_str phone_number"
  shows "(\<forall>user d'. create_user m h s phone_number email password username extra_fields d
                      = (Inr user, d') \<longrightarrow>
            user ''username'' = Some (PyStr (spec_derived_username s email phone_number))) \<and>
         (\<forall>user d'. create_superuser m h s email phone_number password username extra_fields d
                      = (Inr user, d') \<longrightarrow>
            user ''username'' = Some (PyStr (spec_derived_username s email phone_number))) \<and>
         (\<forall>user d'. CustomUserManager__create_user m h s phone_number email password username
                      extra_fields d = (Inr user, d') \<longrightarrow>
            user ''username'' = Some (PyStr (spec_derived_username s email phone_number)))"
proof (intro conjI allI impI)
  fix user d'
  assume "create_user m h s phone_number email password username extra_fields d
            = (Inr user, d')"
  from create_user_Inr [OF this] assms(1)
  show "user ''username'' = Some (PyStr (spec_derived_username s email phone_number))"
    by (simp add: save_other created_user_username)
next
  fix user d'
  assume "create_superuser m h s email phone_number password username extra_fields d
            = (Inr user, d')"
  from create_superuser_Inr [OF this] assms(1)
  show "user ''username'' = Some (PyStr (spec_derived_username s email phone_number))"
    by (simp add: save_other created_user_username)
next
  fix user d'
  assume "CustomUserManager__create_user m h s phone_number email password username
            extra_fields d = (Inr user, d')"
  from create_private_Inr [OF this] assms(1)
  show "user ''username'' = Some (PyStr (spec_derived_username s email phone_number))"
    by (simp add: save_other created_user_username)
qed

theorem username_derived_from_identifier_witness:
  "\<not> truthy_str None \<and> truthy_str (Some ''Ann@Example.COM'') \<and>
   result_attr (create_user example_model example_hasher ascii_str (Some ''5550100'')
       (Some ''Ann@Example.COM'') (Some ''pw'') None Map.empty empty_db) ''username''
     = Some (PyStr ''Ann'') \<and>
   result_attr (create_user example_model example_hasher ascii_str (Some ''5550100'')
       None (Some ''pw'') None Map.empty empty_db) ''username''
     = Some (PyStr ''5550100'')"
proof -
  let ?r1 = "create_user example_model example_hasher ascii_str (Some ''5550100'')
       (Some ''Ann@Example.COM'') (Some ''pw'') None Map.empty empty_db"
  let ?r2 = "create_user example_model example_hasher ascii_str (Some ''5550100'')
       None (Some ''pw'') None Map.empty empty_db"
  have n: "\<not> truthy_str None"
    by simp
  have g1: "truthy_str (Some ''Ann@Example.COM'') \<or> truthy_str (Some ''5550100'')"
    by simp
  have g2: "truthy_str None \<or> truthy_str (Some ''5550100'')"
    by simp
  have "\<exists>user d'. ?r1 = (Inr user, d')"
    by (simp add: create_user_given Let_def)
  then obtain user1 d1 where r1: "?r1 = (Inr user1, d1)"
    by (elim exE) (rule that)
  have "\<exists>user d'. ?r2 = (Inr user, d')"
    by (simp add: create_user_given Let_def)
  then obtain user2 d2 where r2: "?r2 = (Inr user2, d2)"
    by (elim exE) (rule that)
  from username_derived_from_identifier
         [of None "Some ''Ann@Example.COM''" "Some ''5550100''" example_model example_hasher
             ascii_str "Some ''pw''" Map.empty empty_db, OF n g1,
          THEN conjunct1, rule_format, OF r1]
  have u1: "user1 ''username'' = Some (PyStr ''Ann'')"
    by (simp add: example_username_email)
  from username_derived_from_identifier
         [of None None "Some ''5550100''" example_model example_hasher
             ascii_str "Some ''pw''" Map.empty empty_db, OF n g2,
          THEN conjunct1, rule_format, OF r2]
  have u2: "user2 ''username'' = Some (PyStr ''5550100'')"
    by (simp add: example_username_phone)
  have a: "result_attr ?r1 ''username'' = Some (PyStr ''Ann'')"
    unfolding r1 using u1 by (simp add: result_attr_def)
  have b: "result_attr ?r2 ''username'' = Some (PyStr ''5550100'')"
    unfolding r2 using u2 by (simp add: result_attr_def)
  from n g1 a b show ?thesis
    by simp
qed

text \<open>
  C9. \<open>create_superuser\<close> with an \<open>is_superuser\<close> argument that is false raises
  \<open>ValueError\<close> and leaves the database as it was. Without the argument the flag defaults
  to \<open>True\<close> and creation proceeds: the call is \<open>__create_user\<close> with that flag, and every
  user that it returns has \<open>is_superuser\<close> \<open>True\<close> and is stored.
\<close>

theorem create_superuser_requires_flag:
  "(\<forall>v. extra_fields ''is_superuser'' = Some v \<and> \<not> truthy v \<longrightarrow>
      create_superuser m h s email phone_number password username extra_fields d
        = (Inl ValueError, d)) \<and>
   (extra_fields ''is_superuser'' = None \<longrightarrow>
      create_superuser m h s email phone_number password username extra_fields d
        = CustomUserManager__create_user m h s phone_number email password username
            (setdefault (extra_fields(''is_superuser'' \<mapsto> PyBool True))
               ''is_active'' (PyBool True)) d) \<and>
   (\<forall>user d'. extra_fields ''is_superuser'' = None \<and>
      create_superuser m h s email phone_number password username extra_fields d
        = (Inr user, d') \<longrightarrow>
      user ''is_superuser'' = Some (PyBool True) \<and> (\<exists>pk. users d' pk = Some user))"
proof (intro conjI allI impI)
  fix v
  assume "extra_fields ''is_superuser'' = Some v \<and> \<not> truthy v"
  then show "create_superuser m h s email phone_number password username extra_fields d
        = (Inl ValueError, d)"
    by (simp add: create_superuser_falsy dict_get_def setdefault_lookup)
next
  assume "extra_fields ''is_superuser'' = None"
  then show "create_superuser m h s email phone_number password username extra_fields d
        = CustomUserManager__create_user m h s phone_number email password username
            (setdefault (extra_fields(''is_superuser'' \<mapsto> PyBool True))
               ''is_active'' (PyBool True)) d"
    by (cases "extra_fields ''is_active''")
       (simp_all add: create_superuser_def Let_def dict_get_def setdefault_def)
next
  fix user d'
  assume a: "extra_fields ''is_superuser'' = None \<and>
      create_superuser m h s email phone_number password username extra_fields d
        = (Inr user, d')"
  then have r: "create_superuser m h s email phone_number password username extra_fields d
        = (Inr user, d')"
    by simp
  from create_superuser_Inr [OF r] a
  show "user ''is_superuser'' = Some (PyBool True)"
    by (simp add: save_other created_user_is_superuser model_lookup setdefault_lookup)
  from create_superuser_Inr [OF r] save_row
  show "\<exists>pk. users d' pk = Some user"
    by simp
qed

theorem create_superuser_requires_flag_witness:
  "create_superuser example_model example_hasher ascii_str (Some ''root@example.com'') None
     (Some ''pw'') None [''is_superuser'' \<mapsto> PyBool False] empty_db
     = (Inl ValueError, empty_db) \<and>
   result_attr (create_superuser example_model example_hasher ascii_str
     (Some ''root@example.com'') None (Some ''pw'') None Map.empty empty_db) ''is_superuser''
     = Some (PyBool True)"
proof -
  let ?r = "create_superuser example_model example_hasher ascii_str
     (Some ''root@example.com'') None (Some ''pw'') None Map.empty empty_db"
  have f: "[''is_superuser'' \<mapsto> PyBool False] ''is_superuser'' = Some (PyBool False) \<and>
           \<not> truthy (PyBool False)"
    by simp
  from create_superuser_requires_flag
         [of "[''is_superuser'' \<mapsto> PyBool False]" example_model example_hasher ascii_str
             "Some ''root@example.com''" None "Some ''pw''" None empty_db,
          THEN conjunct1, rule_format, OF f]
  have one: "create_superuser example_model example_hasher ascii_str
     (Some ''root@example.com'') None (Some ''pw'') None [''is_superuser'' \<mapsto> PyBool False]
     empty_db = (Inl ValueError, empty_db)" .
  have "\<exists>user d'. ?r = (Inr user, d')"
    by (simp add: create_superuser_given Let_def dict_get_def setdefault_lookup)
  then obtain user d' where r: "?r = (Inr user, d')"
    by (elim exE) (rule that)
  have e: "Map.empty ''is_superuser'' = None \<and> ?r = (Inr user, d')"
    using r by simp
  from create_superuser_requires_flag
         [of Map.empty example_model example_hasher ascii_str
             "Some ''root@example.com''" None "Some ''pw''" None empty_db,
          THEN conjunct2, THEN conjunct2, rule_format, OF e]
  have "user ''is_superuser'' = Some (PyBool True)"
    by (rule conjunct1)
  then have two: "result_attr ?r ''is_superuser'' = Some (PyBool True)"
    unfolding r by (simp add: result_attr_def)
  from one two show ?thesis
    by (rule conjI)
qed

text \<open>
  C5. Every user created through \<open>create_superuser\<close> has the role \<open>Role.ADMIN\<close> and is
  stored with it; without an \<open>is_superuser\<close> argument the created user's flag is \<open>True\<close>;
  and every user created by \<open>__create_user\<close> whose \<open>is_superuser\<close> flag is true has the
  role \<open>Role.ADMIN\<close> in the stored row.
\<close>

theorem superuser_has_admin_role:
  "(create_superuser m h s email phone_number password username extra_fields d = (Inr user, d')
      \<longrightarrow> user ''role'' = Some (PyStr (Role_ADMIN m)) \<and> (\<exists>pk. users d' pk = Some user)) \<and>
   (extra_fields ''is_superuser'' = None \<and>
    create_superuser m h s email phone_number password username extra_fields d = (Inr user, d')
      \<longrightarrow> user ''is_superuser'' = Some (PyBool True)) \<and>
   (CustomUserManager__create_user m h s phone_number email password username extra_fields d
      = (Inr user, d') \<and> truthy (dict_get user ''is_superuser'')
      \<longrightarrow> user ''role'' = Some (PyStr (Role_ADMIN m)) \<and> (\<exists>pk. users d' pk = Some user))"
proof (intro conjI impI)
  assume a: "create_superuser m h s email phone_number password username extra_fields d
               = (Inr user, d')"
  from create_superuser_Inr [OF a]
  show "user ''role'' = Some (PyStr (Role_ADMIN m))"
    by (simp add: save_other created_user_role model_setdefault_superuser)
  from create_superuser_Inr [OF a] save_row
  show "\<exists>pk. users d' pk = Some user"
    by simp
next
  assume a: "extra_fields ''is_superuser'' = None \<and>
    create_superuser m h s email phone_number password username extra_fields d = (Inr user, d')"
  from create_superuser_Inr [of m h s email phone_number password username extra_fields d user d'] a
  show "user ''is_superuser'' = Some (PyBool True)"
    by (simp add: save_other created_user_is_superuser model_lookup setdefault_lookup)
next
  assume a: "CustomUserManager__create_user m h s phone_number email password username
               extra_fields d = (Inr user, d') \<and> truthy (dict_get user ''is_superuser'')"
  then have r: "CustomUserManager__create_user m h s phone_number email password username
               extra_fields d = (Inr user, d')" by simp
  from create_private_Inr [OF r] a
  have t: "truthy (dict_get (model m extra_fields) ''is_superuser'')"
    by (simp add: dict_get_def save_other created_user_is_superuser)
  from create_private_Inr [OF r] t
  show "user ''role'' = Some (PyStr (Role_ADMIN m))"
    by (simp add: save_other created_user_role)
  from create_private_Inr [OF r] save_row
  show "\<exists>pk. users d' pk = Some user"
    by simp
qed


theorem superuser_has_admin_role_witness:
  "result_attr (create_superuser example_model example_hasher ascii_str (Some ''root@example.com'') None
     (Some ''pw'') None Map.empty empty_db) ''role'' = Some (PyStr ''admin'') \<and>
   result_attr (CustomUserManager__create_user example_model example_hasher ascii_str None
     (Some ''root@example.com'') (Some ''pw'') None [''is_superuser'' \<mapsto> PyBool True]
     empty_db) ''role'' = Some (PyStr ''admin'')"
proof -
  let ?r = "create_superuser example_model example_hasher ascii_str (Some ''root@example.com'') None
     (Some ''pw'') None Map.empty empty_db"
  let ?p = "CustomUserManager__create_user example_model example_hasher ascii_str None
     (Some ''root@example.com'') (Some ''pw'') None [''is_superuser'' \<mapsto> PyBool True]
     empty_db"
  have "\<exists>user d'. ?r = (Inr user, d')"
    by (simp add: create_superuser_given Let_def dict_get_def setdefault_lookup)
  then obtain user d' where r: "?r = (Inr user, d')"
    by blast
  from superuser_has_admin_role
         [of example_model example_hasher ascii_str "Some ''root@example.com''" None "Some ''pw''" None
             Map.empty empty_db user d', THEN conjunct1] r
  have "user ''role'' = Some (PyStr (Role_ADMIN example_model))"
    by simp
  with r have one: "result_attr ?r ''role'' = Some (PyStr ''admin'')"
    by (simp add: result_attr_def example_model_def)
  have "\<exists>user d'. ?p = (Inr user, d') \<and> truthy (dict_get user ''is_superuser'')"
    by (simp add: create_private_given [where v = "PyBool True"] model_lookup save_other
          created_user_is_superuser dict_get_def)
  then obtain user2 d2 where p: "?p = (Inr user2, d2)" "truthy (dict_get user2 ''is_superuser'')"
    by blast
  from superuser_has_admin_role
         [of example_model example_hasher ascii_str "Some ''root@example.com''" None "Some ''pw''" None
             "[''is_superuser'' \<mapsto> PyBool True]" empty_db user2 d2,
          THEN conjunct2, THEN conjunct2] p
  have "user2 ''role'' = Some (PyStr (Role_ADMIN example_model))"
    by simp
  with p have two: "result_attr ?p ''role'' = Some (PyStr ''admin'')"
    by (simp add: result_attr_def example_model_def)
  from one two show ?thesis ..
qed

text \<open>
  C7, with the casing of the domain part only. In a creation call with a non-empty email,
  the email of the created user is the email normalized by \<open>normalize_email\<close>: an email
  whose stripped text has no \<open>@\<close> is stored as it is; otherwise the stripped text is cut at
  its last \<open>@\<close> and the part after it is lowercased, while the part before it keeps its
  letter case. This holds for every user that \<open>create_user\<close> or \<open>create_superuser\<close>
  returns.
\<close>

theorem stored_email_domain_lowercased:
  assumes "email = Some e" and "e \<noteq> []"
  shows "(\<forall>user d'. create_user m h s phone_number email password username extra_fields d
                      = (Inr user, d') \<longrightarrow>
            user ''email'' = Some (PyStr (normalize_email s e))) \<and>
         (\<forall>user d'. create_superuser m h s email phone_number password username extra_fields d
                      = (Inr user, d') \<longrightarrow>
            user ''email'' = Some (PyStr (normalize_email s e))) \<and>
         (CHR ''@'' \<notin> set (str_strip s e) \<longrightarrow> normalize_email s e = e) \<and>
         (\<forall>email_name domain_part.
            str_strip s e = email_name @ ''@'' @ domain_part \<and>
            CHR ''@'' \<notin> set domain_part \<longrightarrow>
            normalize_email s e = email_name @ ''@'' @ str_lower s domain_part)"
proof (intro conjI allI impI)
  from assms have t: "truthy_str email" by simp
  from assms have se: "str_value email = e" by simp
  fix user d'
  assume "create_user m h s phone_number email password username extra_fields d
            = (Inr user, d')"
  from create_user_Inr [OF this]
  show "user ''email'' = Some (PyStr (normalize_email s e))"
    by (simp add: save_other created_user_email [OF t] se)
next
  from assms have t: "truthy_str email" by simp
  from assms have se: "str_value email = e" by simp
  fix user d'
  assume "create_superuser m h s email phone_number password username extra_fields d
            = (Inr user, d')"
  from create_superuser_Inr [OF this]
  show "user ''email'' = Some (PyStr (normalize_email s e))"
    by (simp add: save_other created_user_email [OF t] se)
next
  assume "CHR ''@'' \<notin> set (str_strip s e)"
  then show "normalize_email s e = e"
    by (rule normalize_email_no_at)
next
  fix email_name domain_part
  assume "str_strip s e = email_name @ ''@'' @ domain_part \<and> CHR ''@'' \<notin> set domain_part"
  then show "normalize_email s e = email_name @ ''@'' @ str_lower s domain_part"
    by (simp add: normalize_email_at)
qed

theorem stored_email_domain_lowercased_witness:
  "result_attr (create_user example_model example_hasher ascii_str None
      (Some '' Ann@Example.COM'') (Some ''pw'') None Map.empty empty_db) ''email''
     = Some (PyStr ''Ann@example.com'')"
proof -
  let ?r = "create_user example_model example_hasher ascii_str None
      (Some '' Ann@Example.COM'') (Some ''pw'') None Map.empty empty_db"
  have ne: "'' Ann@Example.COM'' \<noteq> []"
    by simp
  note inst = stored_email_domain_lowercased
         [OF refl ne, of example_model example_hasher ascii_str None "Some ''pw''" None
            Map.empty empty_db]
  have "CHR ''@'' \<notin> set ''Example.COM''"
    by simp
  with example_strip
  have "normalize_email ascii_str '' Ann@Example.COM''
          = ''Ann'' @ ''@'' @ str_lower ascii_str ''Example.COM''"
    by (rule inst [THEN conjunct2, THEN conjunct2, THEN conjunct2, rule_format, OF conjI])
  then have n: "normalize_email ascii_str '' Ann@Example.COM'' = ''Ann@example.com''"
    by (simp add: example_lower)
  have "\<exists>user d'. ?r = (Inr user, d')"
    by (simp add: create_user_given Let_def)
  then obtain user d' where r: "?r = (Inr user, d')"
    by (elim exE) (rule that)
  from inst [THEN conjunct1, rule_format, OF r]
  have "user ''email'' = Some (PyStr ''Ann@example.com'')"
    by (simp add: n)
  then show ?thesis
    unfolding r by (simp add: result_attr_def)
qed

text \<open>
  C7, as stated, fails: \<open>A@b.c\<close> and \<open>a@b.c\<close> differ only in letter case, and the two
  users created from them store different emails.
\<close>

theorem stored_email_case_counterexample:
  "str_lower ascii_str ''A@b.c'' = str_lower ascii_str ''a@b.c'' \<and>
   result_attr (create_user example_model example_hasher ascii_str None (Some ''A@b.c'')
      (Some ''pw'') None Map.empty empty_db) ''email'' = Some (PyStr ''A@b.c'') \<and>
   result_attr (create_user example_model example_hasher ascii_str None (Some ''a@b.c'')
      (Some ''pw'') None Map.empty empty_db) ''email'' = Some (PyStr ''a@b.c'') \<and>
   ''A@b.c'' \<noteq> ''a@b.c''"
  by (simp add: example_lower_equal eval_defs example_normalize_upper example_normalize_lower)

section \<open>Registration, password change and role update\<close>

text \<open>
  C6. Registration enforces email uniqueness: when the lowercased input email is the email
  of a stored user, \<open>validate_email\<close> raises \<open>ParseError\<close>; when no stored user has it,
  \<open>validate_email\<close> returns the lowercased email.
\<close>

theorem registration_email_unique:
  "((\<exists>pk user. users d pk = Some user \<and>
       user ''email'' = Some (PyStr (str_lower s value))) \<longrightarrow>
      RegistrationSerializer_validate_email s d value = Inl ParseError) \<and>
   (\<not> (\<exists>pk user. users d pk = Some user \<and>
         user ''email'' = Some (PyStr (str_lower s value))) \<longrightarrow>
      RegistrationSerializer_validate_email s d value = Inr (str_lower s value))"
  by (auto simp add: RegistrationSerializer_validate_email_def Let_def ran_def)

theorem registration_email_unique_witness:
  "RegistrationSerializer_validate_email ascii_str
     (empty_db\<lparr>users := [1 \<mapsto> [''email'' \<mapsto> PyStr ''ann@example.com'']]\<rparr>)
     ''Ann@Example.COM'' = Inl ParseError \<and>
   RegistrationSerializer_validate_email ascii_str empty_db ''Ann@Example.COM''
     = Inr ''ann@example.com''"
  using registration_email_unique
          [of "empty_db\<lparr>users := [1 \<mapsto> [''email'' \<mapsto> PyStr ''ann@example.com'']]\<rparr>"
              ascii_str "''Ann@Example.COM''"]
        registration_email_unique [of empty_db ascii_str "''Ann@Example.COM''"]
  by (simp add: example_lower_registration empty_db_def)




text \<open>
  C10. A role update sets the role to the new value; it sets \<open>is_staff\<close> to \<open>True\<close> when
  the new role is \<open>ADMIN\<close> or \<open>MANAGER\<close> and leaves \<open>is_staff\<close> as it was for every other
  role, so a true \<open>is_staff\<close> is never reset; every other attribute of the user is
  unchanged, and for a stored user only its own row of the database changes.
\<close>

theorem role_update_frame:
  assumes "validated_data ''role'' = Some current_role"
  shows "\<exists>instance' d'.
           UserUpdateRoleSerializer_update m instance validated_data d = (Inr instance', d') \<and>
           instance' ''role'' = Some (PyStr current_role) \<and>
           instance' ''is_staff'' =
             (if current_role = Role_ADMIN m \<or> current_role = Role_MANAGER m
              then Some (PyBool True) else instance ''is_staff'') \<and>
           (instance ''is_staff'' = Some (PyBool True) \<longrightarrow>
              instance' ''is_staff'' = Some (PyBool True)) \<and>
           (\<forall>k. k \<noteq> ''role'' \<and> k \<noteq> ''is_staff'' \<and> k \<noteq> ''id'' \<longrightarrow> instance' k = instance k) \<and>
           (\<forall>pk. instance ''id'' = Some (PyInt pk) \<longrightarrow>
              instance' ''id'' = Some (PyInt pk) \<and> users d' pk = Some instance' \<and>
              (\<forall>pk'. pk' \<noteq> pk \<longrightarrow> users d' pk' = users d pk') \<and>
              profiles d' = profiles d)"
proof -
  let ?i1 = "if current_role = Role_ADMIN m \<or> current_role = Role_MANAGER m
             then instance(''is_staff'' \<mapsto> PyBool True) else instance"
  let ?i2 = "?i1(''role'' \<mapsto> PyStr current_role)"
  have u: "UserUpdateRoleSerializer_update m instance validated_data d
             = (Inr (fst (save ?i2 d)), snd (save ?i2 d))"
    using assms by (simp add: UserUpdateRoleSerializer_update_def Let_def split_beta)
  have id: "?i2 ''id'' = instance ''id''" by simp
  have pk: "save ?i2 d = (?i2, d\<lparr>users := (users d)(pk \<mapsto> ?i2)\<rparr>)"
    if "instance ''id'' = Some (PyInt pk)" for pk
    using that id by (simp add: save_def del: fun_upd_apply)
  have a: "fst (save ?i2 d) ''role'' = Some (PyStr current_role)"
    by (simp add: save_other)
  have b: "fst (save ?i2 d) ''is_staff'' =
             (if current_role = Role_ADMIN m \<or> current_role = Role_MANAGER m
              then Some (PyBool True) else instance ''is_staff'')"
    by (simp add: save_other)
  have c: "fst (save ?i2 d) k = instance k"
    if "k \<noteq> ''role'' \<and> k \<noteq> ''is_staff'' \<and> k \<noteq> ''id''" for k
    using that by (simp add: save_other)
  have e: "fst (save ?i2 d) ''id'' = Some (PyInt pk) \<and>
           users (snd (save ?i2 d)) pk = Some (fst (save ?i2 d)) \<and>
           (\<forall>pk'. pk' \<noteq> pk \<longrightarrow> users (snd (save ?i2 d)) pk' = users d pk') \<and>
           profiles (snd (save ?i2 d)) = profiles d"
    if "instance ''id'' = Some (PyInt pk)" for pk
    unfolding pk [OF that] using that by simp
  from b have b': "instance ''is_staff'' = Some (PyBool True) \<longrightarrow>
                   fst (save ?i2 d) ''is_staff'' = Some (PyBool True)"
    by simp
  show ?thesis
    unfolding u
  proof (rule exI [of _ "fst (save ?i2 d)"], rule exI [of _ "snd (save ?i2 d)"],
         intro conjI allI impI)
    show "(Inr (fst (save ?i2 d)), snd (save ?i2 d)) = (Inr (fst (save ?i2 d)), snd (save ?i2 d))"
      by (rule refl)
    show "fst (save ?i2 d) ''role'' = Some (PyStr current_role)"
      by (rule a)
    show "fst (save ?i2 d) ''is_staff'' =
             (if current_role = Role_ADMIN m \<or> current_role = Role_MANAGER m
              then Some (PyBool True) else instance ''is_staff'')"
      by (rule b)
    show "fst (save ?i2 d) ''is_staff'' = Some (PyBool True)"
      if "instance ''is_staff'' = Some (PyBool True)"
      using b' that by (rule mp)
    show "fst (save ?i2 d) k = instance k"
      if "k \<noteq> ''role'' \<and> k \<noteq> ''is_staff'' \<and> k \<noteq> ''id''" for k
      using that by (rule c)
    show "fst (save ?i2 d) ''id'' = Some (PyInt pk)"
      if "instance ''id'' = Some (PyInt pk)" for pk
      using e [OF that] by (rule conjunct1)
    show "users (snd (save ?i2 d)) pk = Some (fst (save ?i2 d))"
      if "instance ''id'' = Some (PyInt pk)" for pk
      using e [OF that] by (elim conjE)
    show "users (snd (save ?i2 d)) pk' = users d pk'"
      if "instance ''id'' = Some (PyInt pk)" and "pk' \<noteq> pk" for pk pk'
      using e [OF that(1)] that(2) by (elim conjE allE impE)
    show "profiles (snd (save ?i2 d)) = profiles d"
      if "instance ''id'' = Some (PyInt pk)" for pk
      using e [OF that] by (elim conjE)
  qed
qed

theorem role_update_frame_witness:
  "result_attr (UserUpdateRoleSerializer_update example_model
      [''id'' \<mapsto> PyInt 1, ''role'' \<mapsto> PyStr ''user'', ''is_staff'' \<mapsto> PyBool False]
      [''role'' \<mapsto> ''manager''] empty_db) ''is_staff'' = Some (PyBool True) \<and>
   result_attr (UserUpdateRoleSerializer_update example_model
      [''id'' \<mapsto> PyInt 1, ''role'' \<mapsto> PyStr ''admin'', ''is_staff'' \<mapsto> PyBool True]
      [''role'' \<mapsto> ''user''] empty_db) ''is_staff'' = Some (PyBool True) \<and>
   result_attr (UserUpdateRoleSerializer_update example_model
      [''id'' \<mapsto> PyInt 1, ''role'' \<mapsto> PyStr ''admin'', ''is_staff'' \<mapsto> PyBool True]
      [''role'' \<mapsto> ''user''] empty_db) ''role'' = Some (PyStr ''user'')"
proof -
  let ?u = "[''id'' \<mapsto> PyInt 1, ''role'' \<mapsto> PyStr ''user'', ''is_staff'' \<mapsto> PyBool False]"
  let ?a = "[''id'' \<mapsto> PyInt 1, ''role'' \<mapsto> PyStr ''admin'', ''is_staff'' \<mapsto> PyBool True]"
  have r1: "[''role'' \<mapsto> ''manager''] ''role'' = Some ''manager''" by simp
  have r2: "[''role'' \<mapsto> ''user''] ''role'' = Some ''user''" by simp
  from role_update_frame
         [of "[''role'' \<mapsto> ''manager'']" "''manager''" example_model ?u empty_db, OF r1]
  obtain i1 d1 where
    u1: "UserUpdateRoleSerializer_update example_model ?u [''role'' \<mapsto> ''manager''] empty_db
           = (Inr i1, d1)"
    and s1: "i1 ''is_staff'' =
               (if ''manager'' = Role_ADMIN example_model \<or> ''manager'' = Role_MANAGER example_model
                then Some (PyBool True) else ?u ''is_staff'')"
    by (elim exE conjE) (rule that)
  from role_update_frame
         [of "[''role'' \<mapsto> ''user'']" "''user''" example_model ?a empty_db, OF r2]
  obtain i2 d2 where
    u2: "UserUpdateRoleSerializer_update example_model ?a [''role'' \<mapsto> ''user''] empty_db
           = (Inr i2, d2)"
    and s2: "i2 ''is_staff'' =
               (if ''user'' = Role_ADMIN example_model \<or> ''user'' = Role_MANAGER example_model
                then Some (PyBool True) else ?a ''is_staff'')"
    and ro: "i2 ''role'' = Some (PyStr ''user'')"
    by (elim exE conjE) (rule that)
  from s1 have one: "i1 ''is_staff'' = Some (PyBool True)"
    by (simp add: example_model_def)
  from s2 have two: "i2 ''is_staff'' = Some (PyBool True)"
    by (simp add: example_model_def)
  show ?thesis
    unfolding u1 u2 using one two ro by (simp add: result_attr_def)
qed



text \<open>
  The check inside \<open>update\<close> itself has no effect, since the \<open>ParseError\<close> that it builds is
  not raised: called directly with the role \<open>owner\<close>, \<open>update\<close> returns the user with that
  role and stores it.
\<close>

lemma update_stores_unchecked_role:
  "\<not> list_ex (\<lambda>(role, _). ''owner'' = role) (Role_choices example_model) \<and>
   result_attr (UserUpdateRoleSerializer_update example_model
      [''id'' \<mapsto> PyInt 1, ''role'' \<mapsto> PyStr ''user'', ''is_staff'' \<mapsto> PyBool False]
      [''role'' \<mapsto> ''owner'']
      (empty_db\<lparr>users := [1 \<mapsto> [''id'' \<mapsto> PyInt 1, ''role'' \<mapsto> PyStr ''user'',
                                 ''is_staff'' \<mapsto> PyBool False]]\<rparr>)) ''role''
     = Some (PyStr ''owner'') \<and>
   map_option (\<lambda>row. row ''role'')
     (users (snd (UserUpdateRoleSerializer_update example_model
        [''id'' \<mapsto> PyInt 1, ''role'' \<mapsto> PyStr ''user'', ''is_staff'' \<mapsto> PyBool False]
        [''role'' \<mapsto> ''owner'']
        (empty_db\<lparr>users := [1 \<mapsto> [''id'' \<mapsto> PyInt 1, ''role'' \<mapsto> PyStr ''user'',
                                   ''is_staff'' \<mapsto> PyBool False]]\<rparr>))) 1)
     = Some (Some (PyStr ''owner''))"
  by (simp add: UserUpdateRoleSerializer_update_def result_attr_def example_model_def
        empty_db_def save_def Let_def)

section \<open>The combined update of user and profile\<close>

text \<open>
  C3. The combined update is atomic. For every update call that carries profile data:
  when validating or saving the profile part raises after the user row was written, the
  call raises that exception and the database is the one before the call; whenever the
  call raises, the database is unchanged; and when the call returns, the user row was
  written, the profile data was valid and the profile serializer's \<open>save\<close> succeeded on
  the database that holds the updated user.
\<close>

theorem user_profile_update_atomic:
  assumes "truthy (dict_get validated_data ''profile'')"
  shows "(\<forall>instance1 d1 profile e d2.
            ModelSerializer_update instance (validated_data(''profile'' := None)) d
              = (instance1, d1) \<and>
            related_profile instance1 d1 = Some profile \<and>
            UserUpdateSerializer_update_profile ps profile
              (dict_get validated_data ''profile'') d1 = (Inl e, d2) \<longrightarrow>
            UserUpdateSerializer_update ps instance validated_data d = (Inl e, d)) \<and>
         (\<forall>e d'. UserUpdateSerializer_update ps instance validated_data d = (Inl e, d') \<longrightarrow>
            d' = d) \<and>
         (\<forall>instance' d'.
            UserUpdateSerializer_update ps instance validated_data d = (Inr instance', d') \<longrightarrow>
            (\<exists>d1 profile.
               ModelSerializer_update instance (validated_data(''profile'' := None)) d
                 = (instance', d1) \<and>
               related_profile instance' d1 = Some profile \<and>
               profile_is_valid ps profile (dict_get validated_data ''profile'') \<and>
               profile_save ps profile (dict_get validated_data ''profile'') d1
                 = (Inr (), d')))"
proof (intro conjI allI impI)
  fix instance1 d1 profile e d2
  assume a: "ModelSerializer_update instance (validated_data(''profile'' := None)) d
              = (instance1, d1) \<and>
            related_profile instance1 d1 = Some profile \<and>
            UserUpdateSerializer_update_profile ps profile
              (dict_get validated_data ''profile'') d1 = (Inl e, d2)"
  show "UserUpdateSerializer_update ps instance validated_data d = (Inl e, d)"
    unfolding UserUpdateSerializer_update_def Let_def
    by (rule atomic_Inl [where ?d1.0 = d2]) (simp add: a assms)
next
  fix e d'
  assume "UserUpdateSerializer_update ps instance validated_data d = (Inl e, d')"
  then show "d' = d"
    unfolding UserUpdateSerializer_update_def Let_def
    by (auto dest!: atomic_result)
next
  fix instance' d'
  assume "UserUpdateSerializer_update ps instance validated_data d = (Inr instance', d')"
  then have b: "(let (instance, d) =
                  ModelSerializer_update instance (validated_data(''profile'' := None)) d
            in case related_profile instance d of
                 None \<Rightarrow> (Inl DoesNotExist, d)
               | Some profile \<Rightarrow>
                   (case UserUpdateSerializer_update_profile ps profile
                           (dict_get validated_data ''profile'') d of
                      (Inl e, d) \<Rightarrow> (Inl e, d)
                    | (Inr _, d) \<Rightarrow> (Inr instance, d))) = (Inr instance', d')"
    unfolding UserUpdateSerializer_update_def Let_def using assms
    by (auto dest!: atomic_result)
  obtain i1 d1 where m: "ModelSerializer_update instance (validated_data(''profile'' := None)) d
                           = (i1, d1)"
    by (cases "ModelSerializer_update instance (validated_data(''profile'' := None)) d")
  from b m obtain profile where p: "related_profile i1 d1 = Some profile"
    by (cases "related_profile i1 d1") simp_all
  from b m p have c: "(case UserUpdateSerializer_update_profile ps profile
                           (dict_get validated_data ''profile'') d1 of
                      (Inl e, d) \<Rightarrow> (Inl e, d)
                    | (Inr _, d) \<Rightarrow> (Inr i1, d)) = (Inr instance', d')"
    by simp
  then have q: "UserUpdateSerializer_update_profile ps profile
                  (dict_get validated_data ''profile'') d1 = (Inr (), d') \<and> i1 = instance'"
    by (cases "UserUpdateSerializer_update_profile ps profile
                  (dict_get validated_data ''profile'') d1")
       (auto split: sum.splits)
  then have v: "profile_is_valid ps profile (dict_get validated_data ''profile'') \<and>
                profile_save ps profile (dict_get validated_data ''profile'') d1 = (Inr (), d')"
    by (auto simp add: UserUpdateSerializer_update_profile_def split: if_splits)
  from m p q v
  show "\<exists>d1 profile.
               ModelSerializer_update instance (validated_data(''profile'' := None)) d
                 = (instance', d1) \<and>
               related_profile instance' d1 = Some profile \<and>
               profile_is_valid ps profile (dict_get validated_data ''profile'') \<and>
               profile_save ps profile (dict_get validated_data ''profile'') d1
                 = (Inr (), d')"
    by (intro exI [of _ d1] exI [of _ profile]) simp
qed


theorem user_profile_update_atomic_witness:
  "truthy (dict_get [''first_name'' \<mapsto> PyStr ''Anna'',
                     ''profile'' \<mapsto> PyDict [''bio'' \<mapsto> PyStr ''x'']] ''profile'') \<and>
   map_option (\<lambda>row. row ''first_name'')
     (users (snd (ModelSerializer_update [''id'' \<mapsto> PyInt 1, ''first_name'' \<mapsto> PyStr ''Ann'']
        ([''first_name'' \<mapsto> PyStr ''Anna'',
          ''profile'' \<mapsto> PyDict [''bio'' \<mapsto> PyStr ''x'']](''profile'' := None))
        example_db)) 1) = Some (Some (PyStr ''Anna'')) \<and>
   UserUpdateSerializer_update failing_profile_serializer
     [''id'' \<mapsto> PyInt 1, ''first_name'' \<mapsto> PyStr ''Ann'']
     [''first_name'' \<mapsto> PyStr ''Anna'', ''profile'' \<mapsto> PyDict [''bio'' \<mapsto> PyStr ''x'']]
     example_db = (Inl ValidationError, example_db) \<and>
   map_option (\<lambda>row. row ''first_name'')
     (users (snd (UserUpdateSerializer_update working_profile_serializer
        [''id'' \<mapsto> PyInt 1, ''first_name'' \<mapsto> PyStr ''Ann'']
        [''first_name'' \<mapsto> PyStr ''Anna'', ''profile'' \<mapsto> PyDict [''bio'' \<mapsto> PyStr ''x'']]
        example_db)) 1) = Some (Some (PyStr ''Anna'')) \<and>
   map_option (\<lambda>row. row ''bio'')
     (profiles (snd (UserUpdateSerializer_update working_profile_serializer
        [''id'' \<mapsto> PyInt 1, ''first_name'' \<mapsto> PyStr ''Ann'']
        [''first_name'' \<mapsto> PyStr ''Anna'', ''profile'' \<mapsto> PyDict [''bio'' \<mapsto> PyStr ''x'']]
        example_db)) 1) = Some (Some (PyStr ''x''))"
proof -
  let ?u = "[''id'' \<mapsto> PyInt 1, ''first_name'' \<mapsto> PyStr ''Ann'']"
  let ?vd = "[''first_name'' \<mapsto> PyStr ''Anna'',
              ''profile'' \<mapsto> PyDict [''bio'' \<mapsto> PyStr ''x'']]"
  let ?p = "[''user_id'' \<mapsto> PyInt 1, ''bio'' \<mapsto> PyStr []]"
  let ?m = "ModelSerializer_update ?u (?vd(''profile'' := None)) example_db"
  have ne: "[''bio'' \<mapsto> PyStr ''x''] \<noteq> Map.empty"
    by simp
  then have t: "truthy (dict_get ?vd ''profile'')"
    by (simp add: dict_get_def)
  have m: "?m = (fst ?m, snd ?m)"
    by simp
  have p: "related_profile (fst ?m) (snd ?m) = Some ?p"
    by (simp add: update_defs)
  have f: "UserUpdateSerializer_update_profile failing_profile_serializer ?p
             (dict_get ?vd ''profile'') (snd ?m)
           = (Inl ValidationError, (snd ?m)\<lparr>profiles := Map.empty\<rparr>)"
    by (simp add: UserUpdateSerializer_update_profile_def failing_profile_serializer_def)
  have one: "map_option (\<lambda>row. row ''first_name'') (users (snd ?m) 1)
               = Some (Some (PyStr ''Anna''))"
    by (simp add: update_defs)
  from user_profile_update_atomic [OF t, THEN conjunct1, rule_format,
         OF conjI [OF m conjI [OF p f]]]
  have two: "UserUpdateSerializer_update failing_profile_serializer ?u ?vd example_db
               = (Inl ValidationError, example_db)" .
  have three: "map_option (\<lambda>row. row ''first_name'')
     (users (snd (UserUpdateSerializer_update working_profile_serializer ?u ?vd example_db)) 1)
       = Some (Some (PyStr ''Anna''))"
    using ne by (simp add: update_defs)
  have four: "map_option (\<lambda>row. row ''bio'')
     (profiles (snd (UserUpdateSerializer_update working_profile_serializer ?u ?vd example_db)) 1)
       = Some (Some (PyStr ''x''))"
    using ne by (simp add: update_defs)
  from t one two three four show ?thesis
    by (intro conjI)
qed

end
